theory Spec2Isabelle
  imports Complex_Main
begin

section \<open>JavaScript numbers\<close>

text \<open>
  The components compute with JavaScript numbers. A number is modelled as an exact
  rational or one of the three non-finite values of IEEE 754. Arithmetic on finite
  values is exact: binary64 rounding, overflow to infinity and the sign of zero are not
  modelled (a zero divisor counts as \<open>+0\<close>).
\<close>

datatype jsnum = Fin rat | PInf | NInf | NaN

fun isFinite :: "jsnum \<Rightarrow> bool" where
  "isFinite (Fin q) = True"
| "isFinite x = False"

text \<open>Unary minus.\<close>

fun jsneg :: "jsnum \<Rightarrow> jsnum" where
  "jsneg (Fin q) = Fin (- q)"
| "jsneg PInf = NInf"
| "jsneg NInf = PInf"
| "jsneg NaN = NaN"

text \<open>\<open>a + b\<close>: opposite infinities give \<open>NaN\<close>.\<close>

fun jsadd :: "jsnum \<Rightarrow> jsnum \<Rightarrow> jsnum" where
  "jsadd NaN b = NaN"
| "jsadd a NaN = NaN"
| "jsadd (Fin a) (Fin b) = Fin (a + b)"
| "jsadd PInf NInf = NaN"
| "jsadd NInf PInf = NaN"
| "jsadd PInf b = PInf"
| "jsadd NInf b = NInf"
| "jsadd (Fin a) b = b"

definition jssub :: "jsnum \<Rightarrow> jsnum \<Rightarrow> jsnum" where
  "jssub a b = jsadd a (jsneg b)"

text \<open>The sign of a number that is not \<open>NaN\<close>: \<open>-1\<close>, \<open>0\<close> or \<open>1\<close>.\<close>

fun jssgn :: "jsnum \<Rightarrow> int" where
  "jssgn (Fin q) = (if q < 0 then - 1 else if q = 0 then 0 else 1)"
| "jssgn PInf = 1"
| "jssgn NInf = - 1"
| "jssgn NaN = 0"

definition inf_of_sign :: "int \<Rightarrow> jsnum" where
  "inf_of_sign s = (if s < 0 then NInf else PInf)"

text \<open>\<open>a * b\<close>: an infinity times zero is \<open>NaN\<close>.\<close>

fun jsmul :: "jsnum \<Rightarrow> jsnum \<Rightarrow> jsnum" where
  "jsmul NaN b = NaN"
| "jsmul a NaN = NaN"
| "jsmul (Fin a) (Fin b) = Fin (a * b)"
| "jsmul a b = (if jssgn a * jssgn b = 0 then NaN else inf_of_sign (jssgn a * jssgn b))"

text \<open>
  \<open>a / b\<close>: a non-zero finite number divided by zero is an infinity, \<open>0 / 0\<close> and
  a quotient of two infinities are \<open>NaN\<close>, a finite number divided by an infinity is
  zero.
\<close>

fun jsdiv :: "jsnum \<Rightarrow> jsnum \<Rightarrow> jsnum" where
  "jsdiv NaN b = NaN"
| "jsdiv a NaN = NaN"
| "jsdiv (Fin a) (Fin b) =
     (if b = 0 then (if a = 0 then NaN else inf_of_sign (jssgn (Fin a))) else Fin (a / b))"
| "jsdiv (Fin a) b = Fin 0"
| "jsdiv a (Fin b) = inf_of_sign (if b < 0 then - jssgn a else jssgn a)"
| "jsdiv a b = NaN"

text \<open>\<open>Math.abs\<close>.\<close>

fun Math_abs :: "jsnum \<Rightarrow> jsnum" where
  "Math_abs (Fin q) = Fin \<bar>q\<bar>"
| "Math_abs PInf = PInf"
| "Math_abs NInf = PInf"
| "Math_abs NaN = NaN"

text \<open>\<open>a > b\<close>: every comparison with \<open>NaN\<close> is false.\<close>

fun jsgt :: "jsnum \<Rightarrow> jsnum \<Rightarrow> bool" where
  "jsgt NaN b = False"
| "jsgt a NaN = False"
| "jsgt (Fin a) (Fin b) = (b < a)"
| "jsgt PInf b = (b \<noteq> PInf)"
| "jsgt a NInf = (a \<noteq> NInf)"
| "jsgt a b = False"

text \<open>\<open>ToBoolean\<close> on a number: zero and \<open>NaN\<close> are falsy.\<close>

fun truthy :: "jsnum \<Rightarrow> bool" where
  "truthy (Fin q) = (q \<noteq> 0)"
| "truthy NaN = False"
| "truthy x = True"

section \<open>Data model\<close>

text \<open>
  A stored quarter record \<open>{ quarter, sales_volume, profit }\<close>; the numbers of the
  data literal are finite. The filter adds the field \<open>year\<close>, the result of
  \<open>Number.parseInt\<close>, which can be \<open>NaN\<close>.
\<close>

record quarter_data =
  quarter :: rat
  sales_volume :: rat
  profit :: rat

record period_record = quarter_data +
  year :: jsnum

text \<open>
  A plain data object: its own properties in the order \<open>Object.entries\<close> lists them,
  looked up by key (\<open>map_of\<close>). Members inherited from \<open>Object.prototype\<close> are not
  part of the model.
\<close>

type_synonym 'a object = "(string \<times> 'a) list"

type_synonym company_data = "quarter_data list object"
type_synonym category_data = "company_data object"
type_synonym dataset = "category_data object"

section \<open>Numbers and text\<close>

definition digit_char :: "nat \<Rightarrow> char" where
  "digit_char d = char_of (48 + d)"

text \<open>The decimal digits of a natural number, most significant first.\<close>

fun dec :: "nat \<Rightarrow> string" where
  "dec n = (if n < 10 then [digit_char n] else dec (n div 10) @ [digit_char (n mod 10)])"

declare dec.simps [simp del]

definition int_str :: "int \<Rightarrow> string" where
  "int_str i = (if i < 0 then CHR ''-'' # dec (nat (- i)) else dec (nat i))"

definition is_integral :: "rat \<Rightarrow> bool" where
  "is_integral q = (of_int \<lfloor>q\<rfloor> = q)"

text \<open>
  \<open>Number::toString\<close> (radix 10), the conversion behind \<open>Array.prototype.join\<close>,
  template literals and \<open>JSON.stringify\<close>. An integer of magnitude below \<open>10^21\<close>
  is written with all its digits. For every other finite value the text is the shortest
  digit string that reads back as the same binary64 value; this depends on the binary
  representation and is the parameter \<open>dtoa\<close>.
\<close>

fun Number_toString :: "(rat \<Rightarrow> string) \<Rightarrow> jsnum \<Rightarrow> string" where
  "Number_toString dtoa NaN = ''NaN''"
| "Number_toString dtoa PInf = ''Infinity''"
| "Number_toString dtoa NInf = ''-Infinity''"
| "Number_toString dtoa (Fin q) =
     (if is_integral q \<and> \<bar>q\<bar> < 10 ^ 21 then int_str \<lfloor>q\<rfloor> else dtoa q)"

text \<open>
  \<open>Number.prototype.toFixed(f)\<close>. A non-finite value and a value of magnitude at
  least \<open>10^21\<close> are written by \<open>Number::toString\<close>. Otherwise the sign is taken
  first, then \<open>n\<close> is the integer with \<open>n / 10^f\<close> nearest to the magnitude (the
  larger one on a tie), written with at least \<open>f + 1\<close> digits and a point before the
  last \<open>f\<close>.
\<close>

definition toFixed :: "(rat \<Rightarrow> string) \<Rightarrow> nat \<Rightarrow> jsnum \<Rightarrow> string" where
  "toFixed dtoa f x =
     (case x of
        Fin q \<Rightarrow>
          (let s = (if q < 0 then ''-'' else []);
               a = \<bar>q\<bar>
           in if 10 ^ 21 \<le> a then s @ Number_toString dtoa (Fin a)
              else
                (let n = nat \<lfloor>a * 10 ^ f + 1 / 2\<rfloor>;
                     m = dec n;
                     m = (if f \<noteq> 0 \<and> length m \<le> f
                          then replicate (f + 1 - length m) CHR ''0'' @ m else m);
                     k = length m
                 in if f \<noteq> 0 then s @ take (k - f) m @ ''.'' @ drop (k - f) m
                    else s @ m))
      | _ \<Rightarrow> Number_toString dtoa x)"

text \<open>
  \<open>Number.parseInt(string)\<close> with no radix: leading white space is dropped, a sign is
  read, a prefix \<open>0x\<close> or \<open>0X\<close> selects radix 16, and the longest run of digits of
  the radix is the value; with no digit the result is \<open>NaN\<close>.
\<close>

definition is_space :: "char \<Rightarrow> bool" where
  "is_space c = (c \<in> set [CHR '' '', CHR 0x09, CHR 0x0A, CHR 0x0B, CHR 0x0C, CHR 0x0D])"

definition digit_val :: "char \<Rightarrow> nat option" where
  "digit_val c =
     (let n = of_char c :: nat
      in if 48 \<le> n \<and> n \<le> 57 then Some (n - 48)
         else if 97 \<le> n \<and> n \<le> 122 then Some (n - 87)
         else if 65 \<le> n \<and> n \<le> 90 then Some (n - 55)
         else None)"

definition radix_digit :: "nat \<Rightarrow> char \<Rightarrow> bool" where
  "radix_digit R c = (case digit_val c of None \<Rightarrow> False | Some d \<Rightarrow> d < R)"

definition digits_value :: "nat \<Rightarrow> string \<Rightarrow> nat" where
  "digits_value R Z =
     foldl (\<lambda>a c. a * R + (case digit_val c of None \<Rightarrow> 0 | Some d \<Rightarrow> d)) 0 Z"

definition parseInt_digits :: "int \<Rightarrow> string \<Rightarrow> jsnum" where
  "parseInt_digits sign S =
     (let hex = (take 2 S = ''0x'' \<or> take 2 S = ''0X'');
          R = (if hex then 16 else 10);
          S = (if hex then drop 2 S else S);
          Z = takeWhile (radix_digit R) S
      in if Z = [] then NaN else Fin (of_int (sign * int (digits_value R Z))))"

definition parseInt :: "string \<Rightarrow> jsnum" where
  "parseInt inputString =
     (let S = dropWhile is_space inputString;
          sign = (if take 1 S = ''-'' then - 1 else 1);
          S = (if take 1 S = ''+'' \<or> take 1 S = ''-'' then drop 1 S else S)
      in parseInt_digits sign S)"

section \<open>Filter resolver\<close>

text \<open>The object \<open>{ ...q, year: y }\<close>.\<close>

definition with_year :: "quarter_data \<Rightarrow> jsnum \<Rightarrow> period_record" where
  "with_year q y =
     \<lparr>quarter = quarter q, sales_volume = sales_volume q, profit = profit q, year = y\<rparr>"

text \<open>
  The memoised \<open>filteredData\<close> of the dashboard, as a function of the data set and of
  the three selections. The selected year is the text \<open>all\<close> or a year key.
\<close>

definition filteredData ::
  "dataset \<Rightarrow> string \<Rightarrow> string \<Rightarrow> string \<Rightarrow> period_record list" where
  "filteredData sampleData selectedCategory selectedYear selectedCompany =
     (case map_of sampleData selectedCategory of
        None \<Rightarrow> []
      | Some categoryData \<Rightarrow>
          (case map_of categoryData selectedCompany of
             None \<Rightarrow> []
           | Some companyData \<Rightarrow>
               if selectedYear = ''all''
               then concat (map (\<lambda>(year, quarters).
                                   map (\<lambda>q. with_year q (parseInt year)) quarters)
                              companyData)
               else
                 (case map_of companyData selectedYear of
                    None \<Rightarrow> []
                  | Some yearData \<Rightarrow>
                      map (\<lambda>q. with_year q (parseInt selectedYear)) yearData)))"

definition qd :: "rat \<Rightarrow> rat \<Rightarrow> rat \<Rightarrow> quarter_data" where
  "qd n s p = \<lparr>quarter = n, sales_volume = s, profit = p\<rparr>"

text \<open>The sample data of the dashboard.\<close>

definition sampleData :: dataset where
  "sampleData =
     [(''food'',
        [(''MC'',
           [(''2023'', [qd 1 1000 100, qd 2 2000 50, qd 3 1800 120, qd 4 2200 180]),
            (''2024'', [qd 1 2100 150, qd 2 2400 200, qd 3 2600 220, qd 4 2800 250])])]),
      (''technology'',
        [(''TECH'',
           [(''2023'', [qd 1 5000 800, qd 2 5500 900, qd 3 6000 1000, qd 4 6200 1100]),
            (''2024'', [qd 1 6500 1200, qd 2 7000 1300, qd 3 7200 1400, qd 4 7500 1500])])])]"

section \<open>Derived metrics\<close>

record metrics =
  totalSales :: jsnum
  totalProfit :: jsnum
  avgProfitMargin :: jsnum
  growthRate :: jsnum
  isGrowthPositive :: bool

text \<open>
  \<open>calculateMetrics\<close> of the metrics cards. The property \<open>data\<close> may be absent
  (\<open>None\<close>). In a non-empty array the first and the last element are objects, hence
  truthy, so the conditional around the growth rate takes its first branch.
\<close>

definition calculateMetrics :: "period_record list option \<Rightarrow> metrics" where
  "calculateMetrics data =
     (if data = None \<or> length (the data) = 0
      then \<lparr>totalSales = Fin 0, totalProfit = Fin 0, avgProfitMargin = Fin 0,
            growthRate = Fin 0, isGrowthPositive = False\<rparr>
      else
        (let items = the data;
             totalSales = foldl (\<lambda>sum item. jsadd sum (Fin (sales_volume item))) (Fin 0) items;
             totalProfit = foldl (\<lambda>sum item. jsadd sum (Fin (profit item))) (Fin 0) items;
             avgProfitMargin = jsmul (jsdiv totalProfit totalSales) (Fin 100);
             firstQuarter = items ! 0;
             lastQuarter = items ! (length items - 1);
             growthRate =
               jsmul (jsdiv (jssub (Fin (profit lastQuarter)) (Fin (profit firstQuarter)))
                            (Fin (profit firstQuarter)))
                     (Fin 100)
         in \<lparr>totalSales = totalSales, totalProfit = totalProfit,
              avgProfitMargin = avgProfitMargin, growthRate = Math_abs growthRate,
              isGrowthPositive = jsgt growthRate (Fin 0)\<rparr>))"

section \<open>Formatters\<close>

text \<open>
  \<open>Intl.NumberFormat("en-US", options).format\<close> for the two option sets in use. A
  finite value is rounded half away from zero to \<open>mx\<close> fraction digits, trailing
  zeros are dropped down to \<open>mn\<close> digits, the integer part is grouped in threes by
  commas, and the currency symbol follows the sign. A negative value keeps its sign when
  it rounds to zero. \<open>NaN\<close> and the infinities have fixed texts (the infinity sign is
  three bytes of UTF-8).
\<close>

fun group_rev :: "string \<Rightarrow> string" where
  "group_rev (a # b # c # d # rest) = a # b # c # CHR '','' # group_rev (d # rest)"
| "group_rev xs = xs"

definition group3 :: "string \<Rightarrow> string" where
  "group3 s = rev (group_rev (rev s))"

definition pad_left :: "nat \<Rightarrow> string \<Rightarrow> string" where
  "pad_left k s = replicate (k - length s) CHR ''0'' @ s"

definition strip_zeros :: "nat \<Rightarrow> string \<Rightarrow> string" where
  "strip_zeros mn fr = take mn fr @ rev (dropWhile (\<lambda>c. c = CHR ''0'') (rev (drop mn fr)))"

definition infinity_sign :: string where
  "infinity_sign = [CHR 0xE2, CHR 0x88, CHR 0x9E]"

definition Intl_format :: "string \<Rightarrow> nat \<Rightarrow> nat \<Rightarrow> jsnum \<Rightarrow> string" where
  "Intl_format symbol mn mx x =
     (case x of
        NaN \<Rightarrow> symbol @ ''NaN''
      | PInf \<Rightarrow> symbol @ infinity_sign
      | NInf \<Rightarrow> ''-'' @ symbol @ infinity_sign
      | Fin q \<Rightarrow>
          (let n = nat \<lfloor>\<bar>q\<bar> * 10 ^ mx + 1 / 2\<rfloor>;
               ip = dec (n div 10 ^ mx);
               fr = strip_zeros mn (pad_left mx (dec (n mod 10 ^ mx)))
           in (if q < 0 then ''-'' else []) @ symbol @ group3 ip @
              (if fr = [] then [] else ''.'' @ fr)))"

text \<open>
  An argument of a formatter is a number or \<open>undefined\<close> (\<open>None\<close>).
  \<open>ToNumber(undefined)\<close> is \<open>NaN\<close>; \<open>value || 0\<close> replaces every falsy value
  (\<open>undefined\<close>, zero, \<open>NaN\<close>) by zero.
\<close>

definition ToNumber :: "jsnum option \<Rightarrow> jsnum" where
  "ToNumber value = (case value of None \<Rightarrow> NaN | Some x \<Rightarrow> x)"


text \<open>
  Currency: \<open>style: "currency", currency: "USD", minimumFractionDigits: 0\<close>, so
  at most two fraction digits. Plain numbers: the defaults, at most three.
\<close>

definition currency_format :: "jsnum \<Rightarrow> string" where
  "currency_format x = Intl_format ''$'' 0 2 x"

definition number_format :: "jsnum \<Rightarrow> string" where
  "number_format x = Intl_format [] 0 3 x"

text \<open>The formatters of \<open>FinancialTable\<close>: \<open>.format(value)\<close>.\<close>

definition table_formatCurrency :: "jsnum option \<Rightarrow> string" where
  "table_formatCurrency value = currency_format (ToNumber value)"

definition table_formatNumber :: "jsnum option \<Rightarrow> string" where
  "table_formatNumber value = number_format (ToNumber value)"

text \<open>The formatters of \<open>MetricsCards\<close>: \<open>.format(value)\<close>.\<close>

definition cards_formatCurrency :: "jsnum option \<Rightarrow> string" where
  "cards_formatCurrency value = currency_format (ToNumber value)"

definition cards_formatNumber :: "jsnum option \<Rightarrow> string" where
  "cards_formatNumber value = number_format (ToNumber value)"



text \<open>
  The four card values of \<open>MetricsCards\<close>, in the order of the cards: total sales,
  total profit, average margin (two decimals and a percent sign) and growth rate (one
  decimal and a percent sign).
\<close>

definition card_values :: "(rat \<Rightarrow> string) \<Rightarrow> period_record list option \<Rightarrow> string list" where
  "card_values dtoa data =
     (let metrics = calculateMetrics data
      in [cards_formatNumber (Some (totalSales metrics)),
          cards_formatCurrency (Some (totalProfit metrics)),
          toFixed dtoa 2 (avgProfitMargin metrics) @ ''%'',
          toFixed dtoa 1 (growthRate metrics) @ ''%''])"

section \<open>Exporter\<close>

text \<open>\<open>Array.prototype.join\<close> on an array of strings.\<close>

fun join :: "string \<Rightarrow> string list \<Rightarrow> string" where
  "join sep [] = []"
| "join sep [x] = x"
| "join sep (x # y # ys) = x @ sep @ join sep (y # ys)"

text \<open>
  A download started by clicking the hidden link: the text of the blob, its type and the
  file name. The state of the page is the list of downloads started so far.
\<close>

record download =
  content :: string
  mime :: string
  filename :: string

definition csv_row :: "(rat \<Rightarrow> string) \<Rightarrow> period_record \<Rightarrow> string" where
  "csv_row dtoa item =
     (let profitMargin =
            toFixed dtoa 2 (jsmul (jsdiv (Fin (profit item)) (Fin (sales_volume item))) (Fin 100))
      in join '',''
           [Number_toString dtoa (year item),
            ''Q'' @ Number_toString dtoa (Fin (quarter item)),
            Number_toString dtoa (Fin (sales_volume item)),
            Number_toString dtoa (Fin (profit item)),
            profitMargin @ ''%''])"

definition newline :: string where
  "newline = [CHR 0x0A]"

definition exportToCSV ::
  "(rat \<Rightarrow> string) \<Rightarrow> period_record list option \<Rightarrow> download list \<Rightarrow> download list" where
  "exportToCSV dtoa data page =
     (if data = None \<or> length (the data) = 0 then page
      else
        (let headers = [''Year'', ''Quarter'', ''Sales Volume'', ''Profit'', ''Profit Margin''];
             csvContent = join newline (join '','' headers # map (csv_row dtoa) (the data))
         in page @ [\<lparr>content = csvContent, mime = ''text/csv;charset=utf-8;'',
                      filename = ''financial-data.csv''\<rparr>]))"

text \<open>
  \<open>JSON.stringify(data, null, 2)\<close> on an array of period records: each object on its
  own lines at indentation two, its four members at indentation four in the order
  \<open>quarter\<close>, \<open>sales_volume\<close>, \<open>profit\<close>, \<open>year\<close> (the spread comes first).
  A finite number is written by \<open>Number::toString\<close>, any other number as \<open>null\<close>.
\<close>

definition json_number :: "(rat \<Rightarrow> string) \<Rightarrow> jsnum \<Rightarrow> string" where
  "json_number dtoa x = (if isFinite x then Number_toString dtoa x else ''null'')"

definition json_member :: "string \<Rightarrow> string \<Rightarrow> string" where
  "json_member key v = ''    '' @ [CHR 0x22] @ key @ [CHR 0x22] @ '': '' @ v"

definition json_record :: "(rat \<Rightarrow> string) \<Rightarrow> period_record \<Rightarrow> string" where
  "json_record dtoa r =
     ''  {'' @ newline @
     json_member ''quarter'' (json_number dtoa (Fin (quarter r))) @ '','' @ newline @
     json_member ''sales_volume'' (json_number dtoa (Fin (sales_volume r))) @ '','' @ newline @
     json_member ''profit'' (json_number dtoa (Fin (profit r))) @ '','' @ newline @
     json_member ''year'' (json_number dtoa (year r)) @ newline @
     ''  }''"

definition JSON_stringify :: "(rat \<Rightarrow> string) \<Rightarrow> period_record list \<Rightarrow> string" where
  "JSON_stringify dtoa data =
     (if data = [] then ''[]''
      else ''['' @ newline @ join ('','' @ newline) (map (json_record dtoa) data) @ newline @ '']'')"

definition exportToJSON ::
  "(rat \<Rightarrow> string) \<Rightarrow> period_record list option \<Rightarrow> download list \<Rightarrow> download list" where
  "exportToJSON dtoa data page =
     (if data = None \<or> length (the data) = 0 then page
      else
        (let jsonContent = JSON_stringify dtoa (the data)
         in page @ [\<lparr>content = jsonContent, mime = ''application/json;charset=utf-8;'',
                      filename = ''financial-data.json''\<rparr>]))"

section \<open>Data table\<close>

record trend =
  percentage :: string
  isPositive :: bool

text \<open>\<open>getProfitTrend(current, previous)\<close>; \<open>previous\<close> may be \<open>undefined\<close>.\<close>

definition getProfitTrend :: "(rat \<Rightarrow> string) \<Rightarrow> jsnum \<Rightarrow> jsnum option \<Rightarrow> trend option" where
  "getProfitTrend dtoa current previous =
     (if \<not> (case previous of None \<Rightarrow> False | Some p \<Rightarrow> truthy p) then None
      else
        (let change = jsmul (jsdiv (jssub current (the previous)) (the previous)) (Fin 100)
         in Some \<lparr>percentage = toFixed dtoa 1 (Math_abs change),
                   isPositive = jsgt change (Fin 0)\<rparr>))"

text \<open>
  A row of the table body: the texts of the five data cells and the trend shown in the
  sixth (\<open>None\<close>: the cell is empty). Styling is left out.
\<close>

record table_row =
  year_cell :: string
  quarter_cell :: string
  sales_cell :: string
  profit_cell :: string
  margin_cell :: string
  trend_cell :: "trend option"

definition table_row_at :: "(rat \<Rightarrow> string) \<Rightarrow> period_record list \<Rightarrow> nat \<Rightarrow> table_row" where
  "table_row_at dtoa data index =
     (let item = data ! index;
          profitMargin =
            toFixed dtoa 2 (jsmul (jsdiv (Fin (profit item)) (Fin (sales_volume item))) (Fin 100));
          previousItem = (if index > 0 then Some (data ! (index - 1)) else None);
          trend = getProfitTrend dtoa (Fin (profit item))
                    (case previousItem of None \<Rightarrow> None | Some p \<Rightarrow> Some (Fin (profit p)))
      in \<lparr>year_cell = Number_toString dtoa (year item),
           quarter_cell = ''Q'' @ Number_toString dtoa (Fin (quarter item)),
           sales_cell = table_formatNumber (Some (Fin (sales_volume item))),
           profit_cell = table_formatCurrency (Some (Fin (profit item))),
           margin_cell = profitMargin @ ''%'',
           trend_cell = trend\<rparr>)"

text \<open>
  The body of \<open>FinancialTable\<close>: one row per element of \<open>data\<close>, each built from
  the element and its index; for an empty array the single cell \<open>No data available\<close>
  (\<open>None\<close>).
\<close>

definition FinancialTable :: "(rat \<Rightarrow> string) \<Rightarrow> period_record list \<Rightarrow> table_row list option" where
  "FinancialTable dtoa data =
     (if length data = 0 then None
      else Some (map (table_row_at dtoa data) [0..<length data]))"

section \<open>Reading JSON\<close>


definition is_digit :: "char \<Rightarrow> bool" where
  "is_digit c = (48 \<le> (of_char c :: nat) \<and> (of_char c :: nat) \<le> 57)"

definition is_numchar :: "char \<Rightarrow> bool" where
  "is_numchar c = (is_digit c \<or> c \<in> set ''-+.eE'')"





















section \<open>Properties\<close>

subsection \<open>Decimal digits\<close>

lemma of_char_digit_char: "d < 10 \<Longrightarrow> (of_char (digit_char d) :: nat) = 48 + d"
  by (simp add: digit_char_def)

lemma digit_val_digit_char: "d < 10 \<Longrightarrow> digit_val (digit_char d) = Some d"
  by (simp add: digit_val_def of_char_digit_char)

lemma dec_single: "n < 10 \<Longrightarrow> dec n = [digit_char n]"
  by (subst dec.simps) simp

lemma dec_snoc: "\<not> n < 10 \<Longrightarrow> dec n = dec (n div 10) @ [digit_char (n mod 10)]"
  by (subst dec.simps) simp

lemma dec_0: "dec 0 = ''0''"
  by code_simp

lemma dec_small:
  "dec 0 = ''0''" "dec (Suc 0) = ''1''" "dec 1 = ''1''" "dec 2 = ''2''" "dec 50 = ''50''"
  "dec 100 = ''100''" "dec 1000 = ''1000''" "dec 2023 = ''2023''"
  by code_simp+

lemma dec_digits: "c \<in> set (dec n) \<Longrightarrow> \<exists>d<10. c = digit_char d"
proof (induction n rule: dec.induct)
  case (1 n)
  show ?case
  proof (cases "n < 10")
    case True
    with "1.prems" show ?thesis by (subst (asm) dec.simps) auto
  next
    case False
    from "1.prems" have "c \<in> set (dec (n div 10)) \<or> c = digit_char (n mod 10)"
      by (subst (asm) dec.simps) (auto simp: False)
    then show ?thesis
    proof
      assume "c \<in> set (dec (n div 10))"
      with "1.IH" False show ?thesis by blast
    next
      assume "c = digit_char (n mod 10)"
      moreover have "n mod 10 < 10" by simp
      ultimately show ?thesis by blast
    qed
  qed
qed

lemma dec_nonempty: "dec n \<noteq> []"
  by (subst dec.simps) simp

lemma of_char_dec: "c \<in> set (dec n) \<Longrightarrow> 48 \<le> (of_char c :: nat) \<and> (of_char c :: nat) \<le> 57"
  by (auto dest!: dec_digits simp: of_char_digit_char)

lemma hd_dec: "hd (dec n) \<in> set (dec n)"
  by (simp add: dec_nonempty)

lemma dec_Cons: "\<exists>c cs. dec n = c # cs \<and> 48 \<le> (of_char c :: nat) \<and> (of_char c :: nat) \<le> 57
   \<and> (\<forall>d\<in>set cs. 48 \<le> (of_char d :: nat) \<and> (of_char d :: nat) \<le> 57)"
proof (cases "dec n")
  case Nil
  then show ?thesis by (simp add: dec_nonempty)
next
  case (Cons c cs)
  then have "\<forall>d\<in>set (c # cs). 48 \<le> (of_char d :: nat) \<and> (of_char d :: nat) \<le> 57"
    using of_char_dec [of _ n] by auto
  with Cons show ?thesis by auto
qed

lemma is_digit_dec: "c \<in> set (dec n) \<Longrightarrow> is_digit c"
  by (simp add: is_digit_def of_char_dec)



lemma length_dec_single: "n < 10 \<Longrightarrow> length (dec n) = 1"
  by (simp add: dec_single)

lemma length_dec_snoc: "\<not> n < 10 \<Longrightarrow> length (dec n) = Suc (length (dec (n div 10)))"
  by (simp add: dec_snoc)

lemma length_dec_le: "0 < f \<Longrightarrow> n < 10 ^ f \<Longrightarrow> length (dec n) \<le> f"
proof (induction n arbitrary: f rule: dec.induct)
  case (1 n)
  show ?case
  proof (cases "n < 10")
    case True
    with "1.prems" show ?thesis by (simp add: dec_single)
  next
    case False
    from "1.prems" obtain g where f: "f = Suc g" by (cases f) auto
    with False "1.prems" have g: "0 < g" by (cases g) auto
    from "1.prems" f have "n div 10 < 10 ^ g"
      by (simp add: less_mult_imp_div_less mult.commute)
    with "1.IH" [OF False g] have "length (dec (n div 10)) \<le> g" by simp
    with f show ?thesis by (simp add: length_dec_snoc [OF False])
  qed
qed

lemma pad_left_Suc:
  assumes "0 < f"
  shows "pad_left (Suc f) (dec n) = pad_left f (dec (n div 10)) @ [digit_char (n mod 10)]"
proof (cases "n < 10")
  case True
  have "replicate (f - Suc 0) CHR ''0'' @ ''0'' = replicate f CHR ''0''"
    using assms by (cases f) (simp_all add: replicate_append_same)
  with True show ?thesis
    by (simp add: dec_single pad_left_def dec_0)
next
  case False
  then show ?thesis
    by (simp add: dec_snoc pad_left_def Suc_diff_le)
qed

lemma dec_split:
  "0 < f \<Longrightarrow> 10 ^ f \<le> n \<Longrightarrow> dec n = dec (n div 10 ^ f) @ pad_left f (dec (n mod 10 ^ f))"
proof (induction f arbitrary: n)
  case 0
  then show ?case by simp
next
  case (Suc f)
  define k :: nat where "k = 10 ^ f"
  have "1 \<le> k" by (simp add: k_def)
  moreover from Suc.prems have "10 * k \<le> n" by (simp add: k_def)
  ultimately have n10: "\<not> n < 10" by linarith
  show ?case
  proof (cases "f = 0")
    case True
    have "n mod 10 < 10" by simp
    then show ?thesis
      using n10 by (simp add: True dec_snoc pad_left_def dec_single)
  next
    case False
    then have f: "0 < f" by simp
    from Suc.prems have "10 ^ f \<le> n div 10"
      by (simp add: less_eq_div_iff_mult_less_eq mult.commute)
    from Suc.IH [OF f this]
    have "dec (n div 10) = dec (n div 10 div 10 ^ f) @ pad_left f (dec (n div 10 mod 10 ^ f))" .
    moreover have "n div 10 div 10 ^ f = n div 10 ^ Suc f"
      by (simp add: div_mult2_eq)
    moreover have "pad_left (Suc f) (dec (n mod 10 ^ Suc f)) =
        pad_left f (dec (n div 10 mod 10 ^ f)) @ [digit_char (n mod 10)]"
      using pad_left_Suc [OF f, of "n mod 10 ^ Suc f"]
      by (simp add: mod_mult2_eq mod_mod_cancel)
    ultimately show ?thesis
      by (simp add: dec_snoc [OF n10])
  qed
qed

lemma length_pad_left: "length s \<le> k \<Longrightarrow> length (pad_left k s) = k"
  by (simp add: pad_left_def)

lemma length_pad_dec_mod: "0 < f \<Longrightarrow> length (pad_left f (dec (n mod 10 ^ f))) = f"
  by (simp add: length_pad_left length_dec_le)



lemma digits_value_snoc:
  "digits_value R (Z @ [c]) = digits_value R Z * R + (case digit_val c of None \<Rightarrow> 0 | Some d \<Rightarrow> d)"
  by (simp add: digits_value_def)

lemma digits_value_dec: "digits_value 10 (dec n) = n"
proof (induction n rule: dec.induct)
  case (1 n)
  show ?case
  proof (cases "n < 10")
    case True
    then show ?thesis
      by (subst dec.simps) (simp add: digits_value_def digit_val_digit_char)
  next
    case False
    have "digits_value 10 (dec n) = digits_value 10 (dec (n div 10)) * 10 + n mod 10"
      by (subst dec.simps) (simp add: False digits_value_snoc digit_val_digit_char)
    also have "\<dots> = n" using "1.IH" False by simp
    finally show ?thesis .
  qed
qed

lemma int_str_2023: "int_str 2023 = ''2023''"
  by code_simp

lemma int_str_2024: "int_str 2024 = ''2024''"
  by code_simp

subsection \<open>Parsing an integer\<close>

lemma radix_digit_dec: "c \<in> set (dec n) \<Longrightarrow> radix_digit 10 c"
  by (auto dest!: dec_digits simp: radix_digit_def digit_val_digit_char)

lemma not_space_dec: "c \<in> set (dec n) \<Longrightarrow> \<not> is_space c"
  by (auto dest!: of_char_dec simp: is_space_def)

lemma take2_dec: "take 2 (dec n) \<noteq> ''0x''" "take 2 (dec n) \<noteq> ''0X''"
proof -
  obtain c cs where d: "dec n = c # cs"
    and cs: "\<forall>d\<in>set cs. 48 \<le> (of_char d :: nat) \<and> (of_char d :: nat) \<le> 57"
    using dec_Cons [of n] by blast
  show "take 2 (dec n) \<noteq> ''0x''" "take 2 (dec n) \<noteq> ''0X''"
    using cs by (cases cs; auto simp: d)+
qed

lemma take1_dec: "take 1 (dec n) \<noteq> ''-''" "take 1 (dec n) \<noteq> ''+''"
proof -
  obtain c cs where d: "dec n = c # cs"
    and c: "48 \<le> (of_char c :: nat)" "(of_char c :: nat) \<le> 57"
    using dec_Cons [of n] by blast
  show "take 1 (dec n) \<noteq> ''-''" "take 1 (dec n) \<noteq> ''+''"
    using c by (auto simp: d)
qed

lemma dropWhile_space_dec: "dropWhile is_space (dec n) = dec n"
  using hd_dec [of n] not_space_dec [of "hd (dec n)" n] dec_nonempty [of n]
  by (cases "dec n") auto

lemma takeWhile_radix_dec: "takeWhile (radix_digit 10) (dec n) = dec n"
  by (simp add: radix_digit_dec)

lemma parseInt_digits_dec: "parseInt_digits sign (dec n) = Fin (of_int (sign * int n))"
  by (simp add: parseInt_digits_def Let_def take2_dec takeWhile_radix_dec digits_value_dec dec_nonempty)

lemma parseInt_int_str: "parseInt (int_str i) = Fin (of_int i)"
proof (cases "i < 0")
  case False
  then show ?thesis
    by (simp add: int_str_def parseInt_def Let_def dropWhile_space_dec take1_dec
        parseInt_digits_dec del: take_Suc_Cons One_nat_def)
next
  case True
  have sp: "\<not> is_space CHR ''-''" by (simp add: is_space_def)
  show ?thesis
    using True sp by (simp add: int_str_def parseInt_def Let_def parseInt_digits_dec)
qed

lemma int_str_not_all: "int_str i \<noteq> ''all''"
proof -
  obtain c cs where d: "dec (nat \<bar>i\<bar>) = c # cs"
    and c: "48 \<le> (of_char c :: nat)" "(of_char c :: nat) \<le> 57"
    using dec_Cons [of "nat \<bar>i\<bar>"] by blast
  show ?thesis
  proof (cases "i < 0")
    case True
    then show ?thesis by (simp add: int_str_def)
  next
    case False
    then have "int_str i = c # cs" using d by (simp add: int_str_def)
    with c show ?thesis by auto
  qed
qed

subsection \<open>Fixed-point notation\<close>

lemma toFixed_nonfinite:
  "toFixed dtoa f PInf = ''Infinity''" "toFixed dtoa f NInf = ''-Infinity''"
  "toFixed dtoa f NaN = ''NaN''"
  by (simp_all add: toFixed_def)

lemma toFixed_decimal:
  assumes "0 < f" and "\<bar>q\<bar> < 10 ^ 21"
  shows "toFixed dtoa f (Fin q) =
           (if q < 0 then ''-'' else []) @
           dec (nat \<lfloor>\<bar>q\<bar> * 10 ^ f + 1 / 2\<rfloor> div 10 ^ f) @ ''.'' @
           pad_left f (dec (nat \<lfloor>\<bar>q\<bar> * 10 ^ f + 1 / 2\<rfloor> mod 10 ^ f))"
proof -
  define n where "n = nat \<lfloor>\<bar>q\<bar> * 10 ^ f + 1 / 2\<rfloor>"
  define m where "m = (if length (dec n) \<le> f
                        then replicate (f + 1 - length (dec n)) CHR ''0'' @ dec n else dec n)"
  have t: "toFixed dtoa f (Fin q) =
      (if q < 0 then ''-'' else []) @ take (length m - f) m @ ''.'' @ drop (length m - f) m"
    using assms by (simp add: toFixed_def Let_def n_def m_def)
  have "take (length m - f) m = dec (n div 10 ^ f) \<and>
        drop (length m - f) m = pad_left f (dec (n mod 10 ^ f))"
  proof (cases "n < 10 ^ f")
    case True
    then have l: "length (dec n) \<le> f" using assms(1) by (simp add: length_dec_le)
    then have m: "m = CHR ''0'' # replicate (f - length (dec n)) CHR ''0'' @ dec n"
      by (simp add: m_def Suc_diff_le)
    have "length m - f = 1" using l by (simp add: m)
    then show ?thesis using True by (simp add: m dec_0 pad_left_def)
  next
    case False
    then have s: "dec n = dec (n div 10 ^ f) @ pad_left f (dec (n mod 10 ^ f))"
      using assms(1) by (simp add: dec_split)
    have p: "length (pad_left f (dec (n mod 10 ^ f))) = f"
      using assms(1) by (rule length_pad_dec_mod)
    have "f < length (dec n)"
      using dec_nonempty [of "n div 10 ^ f"] by (subst s) (simp add: p)
    then have m: "m = dec n" by (simp add: m_def)
    have "length m - f = length (dec (n div 10 ^ f))"
      unfolding m by (subst s) (simp add: p)
    then show ?thesis unfolding m by (subst (1 2) s) (simp add: p)
  qed
  then show ?thesis
    unfolding t n_def by simp
qed



lemma toFixed_10: "toFixed dtoa 2 (Fin 10) = ''10.00''"
  by code_simp

subsection \<open>Filter resolver\<close>

text \<open>
  Claim C2. For a category and a company present in the data set: selecting the year
  key of an integer year \<open>n\<close> stored under the company returns exactly the records
  stored there, as many as are stored, each with \<open>year = n\<close>; selecting \<open>all\<close>
  returns the concatenation of every year's records in the order of the year mapping,
  each annotated with the number parsed from its year key (the integer \<open>n\<close> for the
  key of \<open>n\<close>), and its length is the sum of the lengths stored per year.
\<close>

theorem filteredData_present:
  assumes "map_of ds cat = Some cd" and "map_of cd co = Some yd"
  shows "(\<forall>n recs. map_of yd (int_str n) = Some recs \<longrightarrow>
            filteredData ds cat (int_str n) co = map (\<lambda>q. with_year q (Fin (of_int n))) recs \<and>
            length (filteredData ds cat (int_str n) co) = length recs) \<and>
         filteredData ds cat ''all'' co =
           concat (map (\<lambda>(y, recs). map (\<lambda>q. with_year q (parseInt y)) recs) yd) \<and>
         length (filteredData ds cat ''all'' co) = sum_list (map (\<lambda>(y, recs). length recs) yd) \<and>
         (\<forall>ys. yd = map (\<lambda>(n, recs). (int_str n, recs)) ys \<longrightarrow>
            filteredData ds cat ''all'' co =
              concat (map (\<lambda>(n, recs). map (\<lambda>q. with_year q (Fin (of_int n))) recs) ys))"
proof (intro conjI allI impI)
  fix n recs
  assume "map_of yd (int_str n) = Some recs"
  with assms show s: "filteredData ds cat (int_str n) co = map (\<lambda>q. with_year q (Fin (of_int n))) recs"
    by (simp add: filteredData_def int_str_not_all parseInt_int_str)
  show "length (filteredData ds cat (int_str n) co) = length recs"
    unfolding s by simp
next
  show a: "filteredData ds cat ''all'' co =
           concat (map (\<lambda>(y, recs). map (\<lambda>q. with_year q (parseInt y)) recs) yd)"
    using assms by (simp add: filteredData_def)
  show "length (filteredData ds cat ''all'' co) = sum_list (map (\<lambda>(y, recs). length recs) yd)"
    unfolding a by (simp add: length_concat comp_def case_prod_unfold)
  fix ys
  assume yd: "yd = map (\<lambda>(n, recs). (int_str n, recs)) ys"
  have "(\<lambda>(year, quarters). map (\<lambda>q. with_year q (parseInt year)) quarters) \<circ>
          (\<lambda>(n, recs). (int_str n, recs))
         = (\<lambda>(n, recs). map (\<lambda>q. with_year q (Fin (of_int n))) recs)"
    by (auto simp: fun_eq_iff parseInt_int_str)
  then show "filteredData ds cat ''all'' co =
              concat (map (\<lambda>(n, recs). map (\<lambda>q. with_year q (Fin (of_int n))) recs) ys)"
    unfolding a yd by simp
qed

theorem filteredData_present_witness:
  "map_of sampleData ''food'' \<noteq> None \<and>
   map_of (the (map_of sampleData ''food'')) ''MC'' \<noteq> None \<and>
   filteredData sampleData ''food'' ''2023'' ''MC'' =
     [\<lparr>quarter = 1, sales_volume = 1000, profit = 100, year = Fin 2023\<rparr>,
      \<lparr>quarter = 2, sales_volume = 2000, profit = 50, year = Fin 2023\<rparr>,
      \<lparr>quarter = 3, sales_volume = 1800, profit = 120, year = Fin 2023\<rparr>,
      \<lparr>quarter = 4, sales_volume = 2200, profit = 180, year = Fin 2023\<rparr>] \<and>
   length (filteredData sampleData ''food'' ''all'' ''MC'') = 8 \<and>
   map year (filteredData sampleData ''food'' ''all'' ''MC'') =
     [Fin 2023, Fin 2023, Fin 2023, Fin 2023, Fin 2024, Fin 2024, Fin 2024, Fin 2024]"
proof -
  let ?yd = "[(''2023'', [qd 1 1000 100, qd 2 2000 50, qd 3 1800 120, qd 4 2200 180]),
              (''2024'', [qd 1 2100 150, qd 2 2400 200, qd 3 2600 220, qd 4 2800 250])]"
  let ?ys = "[(2023 :: int, [qd 1 1000 100, qd 2 2000 50, qd 3 1800 120, qd 4 2200 180]),
              (2024, [qd 1 2100 150, qd 2 2400 200, qd 3 2600 220, qd 4 2800 250])]"
  have 1: "map_of sampleData ''food'' = Some [(''MC'', ?yd)]"
    by (simp add: sampleData_def)
  have 2: "map_of [(''MC'', ?yd)] ''MC'' = Some ?yd"
    by simp
  have 3: "?yd = map (\<lambda>(n, recs). (int_str n, recs)) ?ys"
    by (simp add: int_str_2023 int_str_2024)
  note t = filteredData_present [OF 1 2]
  from t have "map_of ?yd (int_str 2023) =
        Some [qd 1 1000 100, qd 2 2000 50, qd 3 1800 120, qd 4 2200 180] \<longrightarrow>
      filteredData sampleData ''food'' (int_str 2023) ''MC'' =
      map (\<lambda>q. with_year q (Fin (of_int 2023)))
        [qd 1 1000 100, qd 2 2000 50, qd 3 1800 120, qd 4 2200 180]"
    by blast
  then have a: "filteredData sampleData ''food'' ''2023'' ''MC'' =
      map (\<lambda>q. with_year q (Fin 2023))
        [qd 1 1000 100, qd 2 2000 50, qd 3 1800 120, qd 4 2200 180]"
    by (simp add: int_str_2023)
  from t have b: "length (filteredData sampleData ''food'' ''all'' ''MC'') = 8"
    by simp
  note c = t [THEN conjunct2, THEN conjunct2, THEN conjunct2, THEN spec, THEN mp, OF 3]
  show ?thesis
    using 1 a b unfolding c by (simp add: int_str_2023 with_year_def qd_def)
qed



subsection \<open>Derived metrics\<close>






text \<open>
  Claim C1. The divisions of the metrics, of the table and of the CSV rows have no
  fallback for a zero divisor. A record with \<open>sales_volume = 0\<close> and a non-zero profit
  makes \<open>avgProfitMargin\<close> infinite, and the card shows \<open>Infinity%\<close>; a first
  record with \<open>profit = 0\<close> makes the growth rate infinite; zero profit over zero
  sales shows \<open>NaN%\<close>; the margin cell of the table and the margin field of a CSV row
  show the infinity as well.
\<close>

theorem zero_divisor_displayed:
  "avgProfitMargin (calculateMetrics (Some [with_year (qd 1 0 100) (Fin 2023)])) = PInf \<and>
   card_values dtoa (Some [with_year (qd 1 0 100) (Fin 2023)]) ! 2 = ''Infinity%'' \<and>
   growthRate (calculateMetrics (Some [with_year (qd 1 1000 0) (Fin 2023),
                                        with_year (qd 2 1000 50) (Fin 2023)])) = PInf \<and>
   card_values dtoa (Some [with_year (qd 1 1000 0) (Fin 2023),
                           with_year (qd 2 1000 50) (Fin 2023)]) ! 3 = ''Infinity%'' \<and>
   card_values dtoa (Some [with_year (qd 1 0 0) (Fin 2023)]) ! 2 = ''NaN%'' \<and>
   map margin_cell (the (FinancialTable dtoa [with_year (qd 1 0 100) (Fin 2023)])) = [''Infinity%''] \<and>
   csv_row dtoa (with_year (qd 1 0 (- 100)) (Fin 2023)) = ''2023,Q1,0,-100,-Infinity%''"
  by (simp add: calculateMetrics_def card_values_def Let_def with_year_def qd_def jssub_def
      inf_of_sign_def toFixed_nonfinite FinancialTable_def table_row_at_def csv_row_def
      is_integral_def int_str_def dec_small)

subsection \<open>Exporter\<close>

lemma exportToCSV_rows:
  assumes "data \<noteq> []"
  shows "exportToCSV dtoa (Some data) page =
     page @ [\<lparr>content = join newline
                          (''Year,Quarter,Sales Volume,Profit,Profit Margin'' # map (csv_row dtoa) data),
                mime = ''text/csv;charset=utf-8;'', filename = ''financial-data.csv''\<rparr>]"
  using assms by (simp add: exportToCSV_def)

lemma csv_row_fields:
  "csv_row dtoa item =
     Number_toString dtoa (year item) @ '',Q'' @ Number_toString dtoa (Fin (quarter item)) @ '','' @
     Number_toString dtoa (Fin (sales_volume item)) @ '','' @
     Number_toString dtoa (Fin (profit item)) @ '','' @
     toFixed dtoa 2 (jsmul (jsdiv (Fin (profit item)) (Fin (sales_volume item))) (Fin 100)) @ ''%''"
  by (simp add: csv_row_def)

lemma csv_margin_two_decimals:
  assumes "sales_volume item \<noteq> 0" and "\<bar>profit item / sales_volume item * 100\<bar> < 10 ^ 21"
  shows "toFixed dtoa 2 (jsmul (jsdiv (Fin (profit item)) (Fin (sales_volume item))) (Fin 100)) =
     (if profit item / sales_volume item * 100 < 0 then ''-'' else []) @
     dec (nat \<lfloor>\<bar>profit item / sales_volume item * 100\<bar> * 10 ^ 2 + 1 / 2\<rfloor> div 10 ^ 2) @ ''.'' @
     pad_left 2 (dec (nat \<lfloor>\<bar>profit item / sales_volume item * 100\<bar> * 10 ^ 2 + 1 / 2\<rfloor> mod 10 ^ 2))"
proof -
  have "jsmul (jsdiv (Fin (profit item)) (Fin (sales_volume item))) (Fin 100) =
        Fin (profit item / sales_volume item * 100)"
    using assms(1) by simp
  then show ?thesis
    using toFixed_decimal [of 2 "profit item / sales_volume item * 100" dtoa] assms(2)
    by (simp del: jsmul.simps jsdiv.simps)
qed

text \<open>
  Claim C5. The record of the specification's example is exported as the header line
  followed by \<open>2023,Q1,1000,100,10.00%\<close>. The same record with \<open>sales_volume = 0\<close>
  is exported with the margin field \<open>Infinity%\<close>, which is not a number with two
  decimal places.
\<close>

theorem exportToCSV_margin_text:
  "exportToCSV dtoa (Some [\<lparr>quarter = 1, sales_volume = 1000, profit = 100, year = Fin 2023\<rparr>]) [] =
     [\<lparr>content = ''Year,Quarter,Sales Volume,Profit,Profit Margin'' @ newline @
                   ''2023,Q1,1000,100,10.00%'',
       mime = ''text/csv;charset=utf-8;'', filename = ''financial-data.csv''\<rparr>] \<and>
   exportToCSV dtoa (Some [\<lparr>quarter = 1, sales_volume = 0, profit = 100, year = Fin 2023\<rparr>]) [] =
     [\<lparr>content = ''Year,Quarter,Sales Volume,Profit,Profit Margin'' @ newline @
                   ''2023,Q1,0,100,Infinity%'',
       mime = ''text/csv;charset=utf-8;'', filename = ''financial-data.csv''\<rparr>]"
  by (simp add: exportToCSV_def csv_row_def Let_def toFixed_nonfinite inf_of_sign_def
      is_integral_def int_str_def dec_small toFixed_10)

text \<open>
  Claim C8. With an absent or an empty \<open>data\<close> both exports return at their first
  statement: no text is built and no download is started, so the state of the page is
  unchanged. Neither function has an error result.
\<close>

theorem export_empty_noop:
  "exportToCSV dtoa None page = page \<and> exportToCSV dtoa (Some []) page = page \<and>
   exportToJSON dtoa None page = page \<and> exportToJSON dtoa (Some []) page = page"
  by (simp add: exportToCSV_def exportToJSON_def)

subsection \<open>Formatters\<close>


subsection \<open>Data table\<close>



lemma FinancialTable_rows:
  "data \<noteq> [] \<Longrightarrow> \<exists>rows. FinancialTable dtoa data = Some rows \<and> length rows = length data \<and>
     (\<forall>i<length data. rows ! i = table_row_at dtoa data i)"
  by (simp add: FinancialTable_def)



subsection \<open>Number texts\<close>





lemma is_numchar_int_str: "c \<in> set (int_str i) \<Longrightarrow> is_numchar c"
  by (auto simp: int_str_def is_numchar_def is_digit_dec split: if_splits)

lemma hd_int_str: "is_digit (hd (int_str i)) \<or> hd (int_str i) = CHR ''-''"
  using hd_dec [of "nat i"] by (auto simp: int_str_def is_digit_dec)

lemma int_str_nonempty: "int_str i \<noteq> []"
  by (simp add: int_str_def dec_nonempty)













subsection \<open>Tokens of the exported text\<close>
















subsection \<open>Parsing the tokens\<close>










end
